theory Spec2Isabelle
  imports Complex_Main "HOL-Library.Product_Lexorder"
begin

section \<open>Errors\<close>

text \<open>
  The Python exceptions raised by the wrapper layer, and the invalid-argument failure of
  the spatial queries.
\<close>

datatype error =
  ValueError | AttributeError | TypeError | IndexError | RuntimeError | OverflowError |
  InvalidArgument

section \<open>Point evaluation: \<open>Function.__call__\<close> (dolfin/function/function.py)\<close>

text \<open>
  A numpy array is its shape and its entries in row-major order. The number of entries
  of an array is the product of its shape.
\<close>

record ndarray =
  shape :: "nat list"
  entries :: "real list"

definition np_size :: "ndarray \<Rightarrow> nat" where
  "np_size a = prod_list (shape a)"

text \<open>
  \<open>np.reshape(a, (n, -1))\<close>: the second extent is inferred from the size; numpy raises
  ValueError when the size is not a multiple of \<open>n\<close>, and when \<open>n\<close> is 0 (the unknown
  extent cannot be inferred).
\<close>

definition np_reshape_rows :: "ndarray \<Rightarrow> nat \<Rightarrow> error + ndarray" where
  "np_reshape_rows a n =
     (if n = 0 then Inl ValueError
      else if np_size a mod n \<noteq> 0 then Inl ValueError
      else Inr (a\<lparr>shape := [n, np_size a div n]\<rparr>))"

text \<open>
  \<open>Function.__call__(x, bb_tree)\<close>. The geometric dimension of the mesh, the value size
  of the element and the native evaluation (which reads the bounding box tree and may
  itself fail) are inputs of the model. The result is flattened to one dimension when a
  single point was given. Entries are real numbers; a complex build changes the type of
  the entries of \<open>values\<close> only.
\<close>

definition Function_call ::
  "nat \<Rightarrow> nat \<Rightarrow> (ndarray \<Rightarrow> error + real list) \<Rightarrow> ndarray \<Rightarrow> error + ndarray" where
  "Function_call geometric_dimension value_size cpp_eval x =
     (let num_points = (if length (shape x) > 1 then hd (shape x) else 1) in
      case np_reshape_rows x num_points of
        Inl e \<Rightarrow> Inl e
      | Inr x2 \<Rightarrow>
          if shape x2 ! 1 \<noteq> geometric_dimension then Inl ValueError
          else (case cpp_eval x2 of
                  Inl e \<Rightarrow> Inl e
                | Inr values \<Rightarrow>
                    if num_points = 1
                    then Inr \<lparr>shape = [num_points * value_size], entries = values\<rparr>
                    else Inr \<lparr>shape = [num_points, value_size], entries = values\<rparr>))"

section \<open>Storing a number into a double-precision buffer\<close>

text \<open>
  Modelled from the spec: the native constant and the native function are not among the
  sources; the spec describes the constant's storage as a fixed-shape buffer, and the
  wrappers exchange arrays of double-precision numbers with the native side. Storing a
  Python number into such a buffer converts it to the nearest double, ties to the even
  significand, and raises OverflowError when the result is not finite. A number is given
  by its value; infinities and NaN are not modelled.

  \<open>halvings\<close> and \<open>doublings\<close> find the binary exponent of a positive number within the
  exponent range of a double; below the smallest normal number the exponent stays at
  \<open>-1022\<close> (subnormal numbers).
\<close>

fun halvings :: "nat \<Rightarrow> real \<Rightarrow> int" where
  "halvings fuel a = (if fuel = 0 \<or> a < 2 then 0 else 1 + halvings (fuel - 1) (a / 2))"

fun doublings :: "nat \<Rightarrow> real \<Rightarrow> int" where
  "doublings fuel a = (if fuel = 0 \<or> 1 \<le> a then 0 else 1 + doublings (fuel - 1) (2 * a))"

declare halvings.simps [simp del] doublings.simps [simp del]

definition binary_exponent :: "real \<Rightarrow> int" where
  "binary_exponent a = (if 1 \<le> a then halvings 1024 a else - doublings 1022 a)"

definition round_half_even :: "real \<Rightarrow> int" where
  "round_half_even y =
     (let f = \<lfloor>y\<rfloor>; d = y - of_int f
      in if d < 1 / 2 then f else if 1 / 2 < d then f + 1 else if even f then f else f + 1)"

definition to_float64 :: "real \<Rightarrow> error + real" where
  "to_float64 x =
     (let a = \<bar>x\<bar>;
          e = binary_exponent a;
          r = (if 52 \<le> e
               then of_int (round_half_even (a / 2 ^ nat (e - 52))) * 2 ^ nat (e - 52)
               else of_int (round_half_even (a * 2 ^ nat (52 - e))) / 2 ^ nat (52 - e))
      in if 2 ^ 1024 \<le> r then Inl OverflowError else Inr (if x < 0 then - r else r))"

section \<open>The \<open>Constant\<close> wrapper (dolfin/fem/constant.py)\<close>

text \<open>
  Python values that can be bound to an attribute of a \<open>Constant\<close>: a number (an int or a
  float, given by its value), a reference to a native \<open>cpp.fem.Constant\<close> (which owns a
  two-dimensional array of doubles), or an object without a numeric conversion and
  without an \<open>array\<close> method (such as \<open>object()\<close>). Strings, \<open>None\<close> and sequences are not
  values of the model.
\<close>

type_synonym addr = nat

datatype pyval = PyNum real | PyCppConstant addr | PyObject nat

text \<open>
  The state seen by a \<open>Constant\<close>: \<open>attrs\<close> is what ordinary attribute lookup finds on
  the object, \<open>arrays\<close> is the store of the arrays owned by native constants.
\<close>

record constant_state =
  attrs :: "string \<rightharpoonup> pyval"
  arrays :: "addr \<rightharpoonup> real list list"

text \<open>
  \<open>self._value.array()\<close>. When \<open>_value\<close> is not bound, lookup falls through to
  \<open>__getattr__('_value')\<close>, which raises AttributeError; an object that is not a native
  constant has no \<open>array\<close> method. A reference to a native constant that is not in the
  store cannot arise in Python; the model answers AttributeError there too.
\<close>

definition value_array :: "constant_state \<Rightarrow> error + (addr \<times> real list list)" where
  "value_array st =
     (case attrs st ''_value'' of
        None \<Rightarrow> Inl AttributeError
      | Some (PyCppConstant a) \<Rightarrow>
          (case arrays st a of None \<Rightarrow> Inl AttributeError | Some arr \<Rightarrow> Inr (a, arr))
      | Some _ \<Rightarrow> Inl AttributeError)"

text \<open>Every entry of the array is overwritten with the double \<open>x\<close>.\<close>

definition fill_array :: "real \<Rightarrow> real list list \<Rightarrow> real list list" where
  "fill_array x arr = map (map (\<lambda>_. x)) arr"

text \<open>
  \<open>arr[:] = value\<close>: a number is converted to a double and written into every entry;
  the conversion can raise OverflowError. An object without a numeric conversion raises
  TypeError.
\<close>

definition assign_all :: "pyval \<Rightarrow> real list list \<Rightarrow> error + real list list" where
  "assign_all v arr =
     (case v of
        PyNum y \<Rightarrow> (case to_float64 y of Inl e \<Rightarrow> Inl e | Inr x \<Rightarrow> Inr (fill_array x arr))
      | _ \<Rightarrow> Inl TypeError)"


text \<open>
  \<open>Constant.__setattr__(name, value)\<close>: every attribute assignment goes through it. For
  a name other than \<open>value\<close> it calls \<open>super().__setattr__\<close>. The base class is not among
  the sources: its setter is an input of the model, a function on what attribute lookup
  finds, which may refuse the assignment (a read-only property) and cannot reach the
  arrays of native constants.
\<close>

type_synonym base_setter = "string \<Rightarrow> pyval \<Rightarrow> (string \<rightharpoonup> pyval) \<Rightarrow> error + (string \<rightharpoonup> pyval)"

definition Constant_setattr ::
  "base_setter \<Rightarrow> string \<Rightarrow> pyval \<Rightarrow> constant_state \<Rightarrow> error + constant_state" where
  "Constant_setattr super_setattr name v st =
     (if name = ''value'' then
        (case value_array st of
           Inl e \<Rightarrow> Inl e
         | Inr (a, arr) \<Rightarrow>
             (case assign_all v arr of
                Inl e \<Rightarrow> Inl e
              | Inr arr' \<Rightarrow> Inr (st\<lparr>arrays := (arrays st)(a \<mapsto> arr')\<rparr>)))
      else (case super_setattr name v (attrs st) of
              Inl e \<Rightarrow> Inl e
            | Inr attrs' \<Rightarrow> Inr (st\<lparr>attrs := attrs'\<rparr>)))"

text \<open>\<open>object.__setattr__\<close> on an ordinary name: the name is bound on the object.\<close>

definition object_setattr :: base_setter where
  "object_setattr name v tbl = Inr (tbl(name \<mapsto> v))"



text \<open>
  A constructed \<open>Constant\<close>: \<open>__init__\<close> has bound \<open>_value\<close> to a native constant, whose
  array has an entry \<open>[0, 0]\<close>, and no attribute named \<open>value\<close> is found by ordinary lookup
  (\<open>__setattr__\<close> never binds one).
\<close>

definition Constant_wf :: "constant_state \<Rightarrow> bool" where
  "Constant_wf st =
     (attrs st ''value'' = None \<and>
      (case value_array st of
         Inl _ \<Rightarrow> False
       | Inr (a, arr) \<Rightarrow> arr \<noteq> [] \<and> hd arr \<noteq> []))"

section \<open>The \<open>Constant\<close> of dolfin/function/function.py: the \<open>value\<close> property\<close>






section \<open>\<open>Function.copy\<close> (dolfin/function/function.py)\<close>

text \<open>
  Vectors live in a store and are referred to by address (their position in the store);
  a new vector is allocated at the end. The store also hands out the identifiers of
  native functions.
\<close>

record heap =
  vectors :: "real list list"
  next_id :: nat

text \<open>
  A Python \<open>FunctionSpace\<close> object: its identity, the identity of the native function
  space it wraps, and the number of degrees of freedom.
\<close>

record functionspace =
  fs_ref :: nat
  fs_cpp_object :: nat
  fs_dim :: nat

record cpp_function =
  cpp_V :: nat
  cpp_vec :: addr
  cpp_id :: nat

record pyfunction =
  py_V :: functionspace
  py_cpp_object :: cpp_function
  py_name :: string

definition digit_char :: "nat \<Rightarrow> char" where
  "digit_char n = ''0123456789'' ! n"

function str_nat :: "nat \<Rightarrow> string" where
  "str_nat n = (if n < 10 then [digit_char n] else str_nat (n div 10) @ [digit_char (n mod 10)])"
  by pat_completeness auto
termination
  by (relation "measure id") auto

text \<open>
  Modelled from the spec: the native \<open>cpp.function.Function\<close> is not among the sources.
  The spec names it among the native objects that the layer wraps, and the docstring of
  \<open>Function\<close> describes a function as a function space and a vector holding the
  degrees of freedom; \<open>Function.__init__\<close> reads its \<open>id\<close>. Constructed with a vector it
  holds that vector; constructed without one it allocates a zero vector.
\<close>

definition cpp_function_new :: "nat \<Rightarrow> nat \<Rightarrow> addr option \<Rightarrow> heap \<Rightarrow> cpp_function \<times> heap" where
  "cpp_function_new V_cpp ndofs x h =
     (let (vec, h1) =
            (case x of
               Some a \<Rightarrow> (a, h)
             | None \<Rightarrow> (length (vectors h), h\<lparr>vectors := vectors h @ [replicate ndofs 0]\<rparr>))
      in (\<lparr>cpp_V = V_cpp, cpp_vec = vec, cpp_id = next_id h1\<rparr>, h1\<lparr>next_id := next_id h1 + 1\<rparr>))"

text \<open>
  \<open>Function.__init__(V, x, name)\<close>: the native function is created from the native
  function space of \<open>V\<close>, with \<open>x\<close> when one is given; the count is the native
  identifier, the default name is \<open>f_<count>\<close>, and \<open>V\<close> itself is kept in \<open>_V\<close>.
\<close>

definition Function_init ::
  "functionspace \<Rightarrow> addr option \<Rightarrow> string option \<Rightarrow> heap \<Rightarrow> pyfunction \<times> heap" where
  "Function_init V x name h =
     (let (cpp, h') = cpp_function_new (fs_cpp_object V) (fs_dim V) x h
      in (\<lparr>py_V = V, py_cpp_object = cpp,
           py_name = (case name of None \<Rightarrow> ''f_'' @ str_nat (cpp_id cpp) | Some s \<Rightarrow> s)\<rparr>, h'))"

definition function_space :: "pyfunction \<Rightarrow> functionspace" where
  "function_space f = py_V f"

definition Function_vector :: "pyfunction \<Rightarrow> addr" where
  "Function_vector f = cpp_vec (py_cpp_object f)"

text \<open>
  \<open>Vec.copy()\<close> of petsc4py: a new vector with the same entries. A reference to a
  vector that is not in the store cannot arise in Python; the model reports it as an
  error.
\<close>

definition vec_copy :: "addr \<Rightarrow> heap \<Rightarrow> error + (addr \<times> heap)" where
  "vec_copy a h =
     (if a < length (vectors h)
      then Inr (length (vectors h), h\<lparr>vectors := vectors h @ [vectors h ! a]\<rparr>)
      else Inl RuntimeError)"

definition Function_copy :: "pyfunction \<Rightarrow> heap \<Rightarrow> error + (pyfunction \<times> heap)" where
  "Function_copy f h =
     (case vec_copy (Function_vector f) h of
        Inl e \<Rightarrow> Inl e
      | Inr (a, h') \<Rightarrow> Inr (Function_init (function_space f) (Some a) None h'))"

text \<open>Reading a vector, and overwriting its entries in place.\<close>

definition vec_get :: "addr \<Rightarrow> heap \<Rightarrow> real list option" where
  "vec_get a h = (if a < length (vectors h) then Some (vectors h ! a) else None)"

definition vec_put :: "addr \<Rightarrow> real list \<Rightarrow> heap \<Rightarrow> heap" where
  "vec_put a xs h = h\<lparr>vectors := (vectors h)[a := xs]\<rparr>"

section \<open>The bounding box tree (native \<open>BoundingBoxTree\<close>, specified in the design)\<close>

text \<open>
  Modelled from the spec: the native \<open>BoundingBoxTree\<close> is not among the sources (only
  the Python tests that call it are). An entity is its index; a box is the pair of its
  minimum and maximum corner, one coordinate per ambient dimension.
\<close>

type_synonym point = "real list"

record box =
  bmin :: "real list"
  bmax :: "real list"

text \<open>
  Modelled from the spec: a node is a leaf (one entity and its box) or an internal node
  (its box and exactly two children); a tree owns its root, and the tree over zero
  entities is empty.
\<close>

datatype node = Leaf nat box | Internal box node node

type_synonym tree = "node option"

text \<open>The box stored at a node, and the entities with their boxes at the leaves below it.\<close>

fun node_box :: "node \<Rightarrow> box" where
  "node_box (Leaf e b) = b"
| "node_box (Internal b l r) = b"

fun leaves :: "node \<Rightarrow> (nat \<times> box) list" where
  "leaves (Leaf e b) = [(e, b)]"
| "leaves (Internal b l r) = leaves l @ leaves r"

text \<open>
  Modelled from the spec: the ambient dimension of a non-empty tree is the number of
  coordinates of its boxes, read at the root.
\<close>

definition ambient_dim :: "node \<Rightarrow> nat" where
  "ambient_dim n = length (bmin (node_box n))"

subsection \<open>The box primitive\<close>

text \<open>
  Modelled from the spec: \<open>overlaps(a, b)\<close> is interval overlap on every axis. Boxes of
  different dimension do not overlap.
\<close>

definition overlaps :: "box \<Rightarrow> box \<Rightarrow> bool" where
  "overlaps a b = (list_all2 (\<le>) (bmin a) (bmax b) \<and> list_all2 (\<le>) (bmin b) (bmax a))"

text \<open>
  Modelled from the spec: \<open>contains_point(box, p)\<close> holds when every coordinate of \<open>p\<close>
  lies in the interval of its axis, widened by the tolerance the caller supplies.
\<close>

definition contains_point :: "real \<Rightarrow> box \<Rightarrow> point \<Rightarrow> bool" where
  "contains_point tol b p =
     (list_all2 (\<lambda>lo x. lo - tol \<le> x) (bmin b) p \<and> list_all2 (\<lambda>x hi. x \<le> hi + tol) p (bmax b))"

text \<open>Modelled from the spec: the union of two boxes, the box of an internal node.\<close>

definition union_box :: "box \<Rightarrow> box \<Rightarrow> box" where
  "union_box a b = \<lparr>bmin = map2 min (bmin a) (bmin b), bmax = map2 max (bmax a) (bmax b)\<rparr>"

text \<open>Modelled from the spec: the volume of a box, compared when two trees are descended.\<close>

definition volume :: "box \<Rightarrow> real" where
  "volume b = prod_list (map2 (\<lambda>lo hi. hi - lo) (bmin b) (bmax b))"

text \<open>
  Modelled from the spec: the data model's invariant, every internal node's box contains
  the boxes of both children. (The builder makes it the tight union; the queries only
  need containment.)
\<close>

definition contains_box :: "box \<Rightarrow> box \<Rightarrow> bool" where
  "contains_box outer inner =
     (list_all2 (\<le>) (bmin outer) (bmin inner) \<and> list_all2 (\<le>) (bmax inner) (bmax outer))"

fun node_inv :: "node \<Rightarrow> bool" where
  "node_inv (Leaf e b) = True"
| "node_inv (Internal b l r) =
     (contains_box b (node_box l) \<and> contains_box b (node_box r) \<and> node_inv l \<and> node_inv r)"

definition tree_inv :: "tree \<Rightarrow> bool" where
  "tree_inv t = (case t of None \<Rightarrow> True | Some rt \<Rightarrow> node_inv rt)"

subsection \<open>The hierarchy builder\<close>

text \<open>
  Modelled from the spec: the centroid of a box and its coordinate along an axis (0 for
  an axis the box does not have).
\<close>

definition centroid :: "box \<Rightarrow> real list" where
  "centroid b = map2 (\<lambda>lo hi. (lo + hi) / 2) (bmin b) (bmax b)"

definition coord :: "nat \<Rightarrow> real list \<Rightarrow> real" where
  "coord i v = (if i < length v then v ! i else 0)"

fun max_list :: "real list \<Rightarrow> real" where
  "max_list [] = 0"
| "max_list [x] = x"
| "max_list (x # xs) = max x (max_list xs)"

fun min_list :: "real list \<Rightarrow> real" where
  "min_list [] = 0"
| "min_list [x] = x"
| "min_list (x # xs) = min x (min_list xs)"

text \<open>
  Modelled from the spec: the split axis is the one with the greatest spread among the
  centroids. The spec does not say which axis wins a tie; the lowest one does here.
\<close>

definition spread :: "(nat \<times> box) list \<Rightarrow> nat \<Rightarrow> real" where
  "spread S i = (let cs = map (\<lambda>eb. coord i (centroid (snd eb))) S in max_list cs - min_list cs)"

fun best_axis :: "(nat \<Rightarrow> real) \<Rightarrow> nat list \<Rightarrow> nat" where
  "best_axis f [] = 0"
| "best_axis f [i] = i"
| "best_axis f (i # js) = (let j = best_axis f js in if f j \<le> f i then i else j)"

definition split_axis :: "(nat \<times> box) list \<Rightarrow> nat" where
  "split_axis S =
     best_axis (spread S) [0 ..< (case S of [] \<Rightarrow> 0 | eb # _ \<Rightarrow> length (bmin (snd eb)))]"

text \<open>
  Modelled from the spec: the entities in ascending order of their centroid coordinate
  along the axis, ties in ascending order of the entity index.
\<close>

definition median_order :: "nat \<Rightarrow> (nat \<times> box) list \<Rightarrow> (nat \<times> box) list" where
  "median_order axis S = sort_key (\<lambda>eb. (coord axis (centroid (snd eb)), fst eb)) S"

text \<open>
  Modelled from the spec: recursive bisection. One entity gives a leaf; \<open>m\<close> entities are
  split at the median into halves of \<open>\<lceil>m/2\<rceil>\<close> and \<open>\<lfloor>m/2\<rfloor>\<close> entities, and the node's box
  is the union of the boxes of its children; zero entities give the empty tree.
\<close>

function build_node :: "(nat \<times> box) list \<Rightarrow> node option" where
  "build_node S =
     (case S of
        [] \<Rightarrow> None
      | [eb] \<Rightarrow> Some (Leaf (fst eb) (snd eb))
      | _ \<Rightarrow>
         (let sorted = median_order (split_axis S) S;
              k = (length S + 1) div 2
          in case (build_node (take k sorted), build_node (drop k sorted)) of
               (Some l, Some r) \<Rightarrow> Some (Internal (union_box (node_box l) (node_box r)) l r)
             | _ \<Rightarrow> None))"
  by pat_completeness auto
termination
  by (relation "measure length") (auto simp: median_order_def)

declare build_node.simps [simp del]

text \<open>Modelled from the spec: \<open>build\<close>, from the list of entities with their boxes.\<close>

definition build :: "(nat \<times> box) list \<Rightarrow> tree" where
  "build S = build_node S"

text \<open>All boxes of the input have the same dimension \<open>d\<close>.\<close>

definition uniform_dim :: "nat \<Rightarrow> (nat \<times> box) list \<Rightarrow> bool" where
  "uniform_dim d S = list_all (\<lambda>eb. length (bmin (snd eb)) = d \<and> length (bmax (snd eb)) = d) S"

subsection \<open>Point queries\<close>

text \<open>
  Modelled from the spec: depth-first traversal from the root; a subtree whose box does
  not contain the point is pruned; a leaf whose box contains the point records its
  entity. The all-collisions mode visits every leaf that is not pruned.
\<close>

fun collisions_node :: "real \<Rightarrow> node \<Rightarrow> point \<Rightarrow> nat list" where
  "collisions_node tol (Leaf e b) p = (if contains_point tol b p then [e] else [])"
| "collisions_node tol (Internal b l r) p =
     (if contains_point tol b p then collisions_node tol l p @ collisions_node tol r p else [])"

text \<open>
  Modelled from the spec: the first-collision mode returns at the first containing leaf
  it finds. Which child is searched first is implementation-defined: it is decided at
  every internal node by \<open>left_first\<close>, an input of the model.
\<close>

fun first_collision_node :: "(node \<Rightarrow> bool) \<Rightarrow> real \<Rightarrow> node \<Rightarrow> point \<Rightarrow> nat option" where
  "first_collision_node left_first tol (Leaf e b) p =
     (if contains_point tol b p then Some e else None)"
| "first_collision_node left_first tol (Internal b l r) p =
     (if \<not> contains_point tol b p then None
      else if left_first (Internal b l r)
           then (case first_collision_node left_first tol l p of
                   Some e \<Rightarrow> Some e
                 | None \<Rightarrow> first_collision_node left_first tol r p)
           else (case first_collision_node left_first tol r p of
                   Some e \<Rightarrow> Some e
                 | None \<Rightarrow> first_collision_node left_first tol l p))"

text \<open>
  Modelled from the spec: the queries on a tree. The empty tree answers without
  traversal; a point whose dimension is not the ambient dimension of the tree is an
  invalid argument. The result of \<open>compute_collisions\<close> is a set, given as a list in
  no particular order.
\<close>

definition compute_collisions :: "real \<Rightarrow> tree \<Rightarrow> point \<Rightarrow> error + nat list" where
  "compute_collisions tol t p =
     (case t of
        None \<Rightarrow> Inr []
      | Some rt \<Rightarrow>
          if length p \<noteq> ambient_dim rt then Inl InvalidArgument
          else Inr (collisions_node tol rt p))"

definition compute_first_collision ::
  "(node \<Rightarrow> bool) \<Rightarrow> real \<Rightarrow> tree \<Rightarrow> point \<Rightarrow> error + nat option" where
  "compute_first_collision left_first tol t p =
     (case t of
        None \<Rightarrow> Inr None
      | Some rt \<Rightarrow>
          if length p \<noteq> ambient_dim rt then Inl InvalidArgument
          else Inr (first_collision_node left_first tol rt p))"

subsection \<open>Tree-to-tree queries\<close>

text \<open>
  Modelled from the spec: simultaneous descent of both trees. A pair of nodes whose
  boxes do not overlap is pruned; two overlapping leaves emit their pair of entities;
  otherwise the node with the larger box volume is expanded into its two children. A
  leaf has no children, so against a leaf the internal node is expanded; the spec does
  not say which node is expanded when the volumes are equal, and the first one is here.
\<close>

fun collide :: "node \<Rightarrow> node \<Rightarrow> (nat \<times> nat) list" where
  "collide (Leaf ea ba) (Leaf eb bb) = (if overlaps ba bb then [(ea, eb)] else [])"
| "collide (Leaf ea ba) (Internal bb l r) =
     (if overlaps ba bb then collide (Leaf ea ba) l @ collide (Leaf ea ba) r else [])"
| "collide (Internal ba l r) (Leaf eb bb) =
     (if overlaps ba bb then collide l (Leaf eb bb) @ collide r (Leaf eb bb) else [])"
| "collide (Internal ba la ra) (Internal bb lb rb) =
     (if \<not> overlaps ba bb then []
      else if volume bb \<le> volume ba
           then collide la (Internal bb lb rb) @ collide ra (Internal bb lb rb)
           else collide (Internal ba la ra) lb @ collide (Internal ba la ra) rb)"

text \<open>
  Modelled from the spec: the tree-to-tree query. Either tree empty yields no pairs;
  trees of different ambient dimension are an invalid argument.
\<close>

definition compute_collisions_bb :: "tree \<Rightarrow> tree \<Rightarrow> error + (nat \<times> nat) list" where
  "compute_collisions_bb A B =
     (case (A, B) of
        (Some a, Some b) \<Rightarrow>
          if ambient_dim a \<noteq> ambient_dim b then Inl InvalidArgument
          else Inr (collide a b)
      | _ \<Rightarrow> Inr [])"

text \<open>The pairs of entities, one of each tree, whose leaf boxes overlap.\<close>

definition overlapping_pairs :: "node \<Rightarrow> node \<Rightarrow> (nat \<times> nat) set" where
  "overlapping_pairs a b =
     {(ea, eb). \<exists>ba bb. (ea, ba) \<in> set (leaves a) \<and> (eb, bb) \<in> set (leaves b) \<and> overlaps ba bb}"

section \<open>Theorems about the Python layer\<close>

text \<open>
  C7. Evaluating a Function at coordinates whose dimension differs from the geometric
  dimension of the mesh raises ValueError: this holds for a single point given as a
  one-dimensional array of \<open>n\<close> components and for an array of \<open>m\<close> points with \<open>n\<close>
  components each, whenever \<open>n\<close> is not the geometric dimension. The native evaluation
  is not reached, and nothing recovers from the mismatch.
\<close>

theorem Function_call_wrong_dimension:
  "n \<noteq> gdim \<Longrightarrow>
     Function_call gdim value_size cpp_eval \<lparr>shape = [n], entries = xs\<rparr> = Inl ValueError \<and>
     Function_call gdim value_size cpp_eval \<lparr>shape = [m, n], entries = ys\<rparr> = Inl ValueError"
  by (cases "m = 0") (simp_all add: Function_call_def np_reshape_rows_def np_size_def)

theorem Function_call_wrong_dimension_witness:
  "(4::nat) \<noteq> 3 \<and>
   Function_call 3 1 (\<lambda>_. Inr [1]) \<lparr>shape = [4], entries = [0, 0, 0, 0]\<rparr> = Inl ValueError \<and>
   Function_call 3 1 (\<lambda>_. Inr [1]) \<lparr>shape = [5, 4], entries = []\<rparr> = Inl ValueError \<and>
   (2::nat) \<noteq> 3 \<and>
   Function_call 3 1 (\<lambda>_. Inr [1]) \<lparr>shape = [2], entries = [0, 0]\<rparr> = Inl ValueError"
  using Function_call_wrong_dimension [of 4 3 1 "\<lambda>_. Inr [1]" "[0, 0, 0, 0]" 5 "[]"]
    Function_call_wrong_dimension [of 2 3 1 "\<lambda>_. Inr [1]" "[0, 0]" 0 "[]"]
  by simp

lemma Function_call_right_dimension:
  "Function_call gdim value_size cpp_eval \<lparr>shape = [gdim], entries = xs\<rparr> =
     (case cpp_eval \<lparr>shape = [1, gdim], entries = xs\<rparr> of
        Inl e \<Rightarrow> Inl e
      | Inr values \<Rightarrow> Inr \<lparr>shape = [value_size], entries = values\<rparr>)"
  by (simp add: Function_call_def np_reshape_rows_def np_size_def split: sum.splits)

lemma Function_call_accepts_only_gdim:
  assumes "Function_call gdim value_size cpp_eval x = Inr y"
  shows "np_size x = (if length (shape x) > 1 then hd (shape x) else 1) * gdim"
proof -
  let ?n = "if length (shape x) > 1 then hd (shape x) else 1"
  from assms obtain x2 where r: "np_reshape_rows x ?n = Inr x2" and d: "shape x2 ! 1 = gdim"
    by (auto simp: Function_call_def Let_def split: sum.splits if_splits)
  from r have "?n \<noteq> 0" "np_size x mod ?n = 0" "shape x2 = [?n, np_size x div ?n]"
    by (auto simp: np_reshape_rows_def split: if_splits)
  with d show ?thesis
    by auto
qed

subsection \<open>Conversion to a double\<close>















subsection \<open>The \<open>Constant\<close> wrapper\<close>


lemma value_array_other_attr:
  "name \<noteq> ''_value'' \<Longrightarrow> value_array (st\<lparr>attrs := (attrs st)(name \<mapsto> w)\<rparr>) = value_array st"
  by (simp add: value_array_def split: option.splits pyval.splits)


lemma setattr_ordinary_wf:
  "Constant_wf st \<Longrightarrow> name \<noteq> ''value'' \<Longrightarrow> name \<noteq> ''_value'' \<Longrightarrow>
   Constant_setattr object_setattr name v st = Inr st' \<Longrightarrow> Constant_wf st'"
  by (auto simp: Constant_wf_def Constant_setattr_def object_setattr_def value_array_def
      split: option.splits pyval.splits sum.splits)

lemma setattr_value_wf:
  assumes wf: "Constant_wf st"
    and set: "Constant_setattr super_setattr ''value'' v st = Inr st'"
  shows "Constant_wf st'"
proof -
  from wf obtain a arr where va: "value_array st = Inr (a, arr)" and ne: "arr \<noteq> []" "hd arr \<noteq> []"
    and nov: "attrs st ''value'' = None"
    by (auto simp: Constant_wf_def split: sum.splits)
  from set va obtain arr' where conv: "assign_all v arr = Inr arr'"
    and st': "st' = st\<lparr>arrays := (arrays st)(a \<mapsto> arr')\<rparr>"
    by (cases "assign_all v arr") (auto simp: Constant_setattr_def)
  from conv obtain x where arr': "arr' = fill_array x arr"
    by (cases v) (auto simp: assign_all_def split: sum.splits)
  from va have "attrs st ''_value'' = Some (PyCppConstant a)"
    by (auto simp: value_array_def split: option.splits pyval.splits)
  then have "value_array st' = Inr (a, arr')"
    by (simp add: value_array_def st')
  moreover have "arr' \<noteq> []" "hd arr' \<noteq> []"
    using ne by (simp_all add: arr' fill_array_def hd_map)
  moreover have "attrs st' ''value'' = None"
    using nov by (simp add: st')
  ultimately show ?thesis
    by (simp add: Constant_wf_def)
qed








lemma vec_copy_fresh:
  "a < length (vectors h) \<Longrightarrow>
   vec_copy a h = Inr (length (vectors h), h\<lparr>vectors := vectors h @ [vectors h ! a]\<rparr>)"
  by (simp add: vec_copy_def)

lemma Function_init_given_vector:
  "Function_vector (fst (Function_init V (Some a) name h)) = a \<and>
   function_space (fst (Function_init V (Some a) name h)) = V \<and>
   vectors (snd (Function_init V (Some a) name h)) = vectors h"
  by (simp add: Function_init_def cpp_function_new_def Function_vector_def function_space_def
      Let_def)

text \<open>
  C10. For a Function \<open>f\<close> whose vector is in the store, \<open>f.copy()\<close> succeeds and returns
  a Function \<open>g\<close> whose function space is the one of \<open>f\<close> (the same object, not a
  duplicate) and whose vector is a newly allocated one with the entries of the vector of
  \<open>f\<close>; the vector of \<open>f\<close> itself is left as it was. Overwriting the vector of \<open>g\<close>
  afterwards does not change what the vector of \<open>f\<close> holds, and overwriting the vector of
  \<open>f\<close> does not change what the vector of \<open>g\<close> holds.
\<close>

theorem Function_copy_shares_space_copies_vector:
  "Function_vector f < length (vectors h) \<Longrightarrow>
   \<exists>g h'. Function_copy f h = Inr (g, h') \<and>
     function_space g = function_space f \<and>
     fs_ref (function_space g) = fs_ref (function_space f) \<and>
     Function_vector g \<noteq> Function_vector f \<and>
     Function_vector g = length (vectors h) \<and>
     vec_get (Function_vector g) h' = vec_get (Function_vector f) h \<and>
     vec_get (Function_vector f) h' = vec_get (Function_vector f) h \<and>
     (\<forall>xs. vec_get (Function_vector f) (vec_put (Function_vector g) xs h') =
             vec_get (Function_vector f) h') \<and>
     (\<forall>xs. vec_get (Function_vector g) (vec_put (Function_vector f) xs h') =
             vec_get (Function_vector g) h')"
proof -
  assume alloc: "Function_vector f < length (vectors h)"
  let ?a = "length (vectors h)"
  let ?h1 = "h\<lparr>vectors := vectors h @ [vectors h ! Function_vector f]\<rparr>"
  obtain g h' where r: "Function_init (function_space f) (Some ?a) None ?h1 = (g, h')"
    by (cases "Function_init (function_space f) (Some ?a) None ?h1")
  have copy: "Function_copy f h = Inr (g, h')"
    using alloc r by (simp add: Function_copy_def vec_copy_fresh)
  have g: "Function_vector g = ?a" and sp: "function_space g = function_space f"
    and h': "vectors h' = vectors h @ [vectors h ! Function_vector f]"
    using Function_init_given_vector [of "function_space f" ?a None ?h1] r by simp_all
  have ne: "Function_vector g \<noteq> Function_vector f"
    using alloc g by simp
  have same: "vec_get (Function_vector g) h' = vec_get (Function_vector f) h"
    using alloc g h' by (simp add: vec_get_def)
  have kept: "vec_get (Function_vector f) h' = vec_get (Function_vector f) h"
    using alloc h' by (simp add: vec_get_def nth_append)
  have frame_f: "\<forall>xs. vec_get (Function_vector f) (vec_put (Function_vector g) xs h') =
             vec_get (Function_vector f) h'"
    using alloc g h' by (simp add: vec_get_def vec_put_def nth_append)
  have frame_g: "\<forall>xs. vec_get (Function_vector g) (vec_put (Function_vector f) xs h') =
             vec_get (Function_vector g) h'"
    using alloc g h' by (simp add: vec_get_def vec_put_def nth_append)
  have ref: "fs_ref (function_space g) = fs_ref (function_space f)"
    using sp by simp
  show ?thesis
    by (intro exI [of _ g] exI [of _ h'] conjI copy sp ref ne g same kept frame_f frame_g)
qed

theorem Function_copy_shares_space_copies_vector_witness:
  "Function_vector
     \<lparr>py_V = \<lparr>fs_ref = 5, fs_cpp_object = 6, fs_dim = 2\<rparr>,
      py_cpp_object = \<lparr>cpp_V = 6, cpp_vec = 0, cpp_id = 0\<rparr>, py_name = ''f_0''\<rparr>
     < length (vectors \<lparr>vectors = [[1, 2]], next_id = 1\<rparr>) \<and>
   Function_copy
     \<lparr>py_V = \<lparr>fs_ref = 5, fs_cpp_object = 6, fs_dim = 2\<rparr>,
      py_cpp_object = \<lparr>cpp_V = 6, cpp_vec = 0, cpp_id = 0\<rparr>, py_name = ''f_0''\<rparr>
     \<lparr>vectors = [[1, 2]], next_id = 1\<rparr>
   = Inr (\<lparr>py_V = \<lparr>fs_ref = 5, fs_cpp_object = 6, fs_dim = 2\<rparr>,
           py_cpp_object = \<lparr>cpp_V = 6, cpp_vec = 1, cpp_id = 1\<rparr>, py_name = ''f_1''\<rparr>,
          \<lparr>vectors = [[1, 2], [1, 2]], next_id = 2\<rparr>) \<and>
   vec_get 0 (vec_put 1 [7, 8] \<lparr>vectors = [[1, 2], [1, 2]], next_id = 2\<rparr>) = Some [1, 2] \<and>
   vec_get 1 (vec_put 0 [7, 8] \<lparr>vectors = [[1, 2], [1, 2]], next_id = 2\<rparr>) = Some [1, 2]"
proof -
  let ?f = "\<lparr>py_V = \<lparr>fs_ref = 5, fs_cpp_object = 6, fs_dim = 2\<rparr>,
      py_cpp_object = \<lparr>cpp_V = 6, cpp_vec = 0, cpp_id = 0\<rparr>, py_name = ''f_0''\<rparr>"
  let ?h = "\<lparr>vectors = [[1, 2 :: real]], next_id = 1\<rparr>"
  let ?g = "\<lparr>py_V = \<lparr>fs_ref = 5, fs_cpp_object = 6, fs_dim = 2\<rparr>,
           py_cpp_object = \<lparr>cpp_V = 6, cpp_vec = 1, cpp_id = 1\<rparr>, py_name = ''f_1''\<rparr>"
  let ?h' = "\<lparr>vectors = [[1, 2 :: real], [1, 2]], next_id = 2\<rparr>"
  have alloc: "Function_vector ?f < length (vectors ?h)"
    by (simp add: Function_vector_def)
  have run: "Function_copy ?f ?h = Inr (?g, ?h')"
    by (simp add: Function_copy_def vec_copy_def Function_vector_def Function_init_def
        cpp_function_new_def function_space_def digit_char_def Let_def)
  from Function_copy_shares_space_copies_vector [OF alloc] run
  have "vec_get (Function_vector ?f) (vec_put (Function_vector ?g) [7, 8] ?h') =
          vec_get (Function_vector ?f) ?h'"
    and "vec_get (Function_vector ?g) (vec_put (Function_vector ?f) [7, 8] ?h') =
          vec_get (Function_vector ?g) ?h'"
    by auto
  then have "vec_get 0 (vec_put 1 [7, 8] ?h') = Some [1, 2]"
    and "vec_get 1 (vec_put 0 [7, 8] ?h') = Some [1, 2]"
    by (simp_all add: Function_vector_def vec_get_def)
  with alloc run show ?thesis
    by blast
qed

section \<open>Theorems about the bounding box tree\<close>

subsection \<open>The builder establishes the invariant\<close>

lemma build_node_empty: "build_node [] = None"
  by (simp add: build_node.simps)

lemma build_node_single: "build_node [eb] = Some (Leaf (fst eb) (snd eb))"
  by (simp add: build_node.simps)

lemma build_node_split:
  "build_node (x # y # S) =
     (let sorted = median_order (split_axis (x # y # S)) (x # y # S);
          k = (length (x # y # S) + 1) div 2
      in case (build_node (take k sorted), build_node (drop k sorted)) of
           (Some l, Some r) \<Rightarrow> Some (Internal (union_box (node_box l) (node_box r)) l r)
         | _ \<Rightarrow> None)"
  by (subst build_node.simps) simp

lemma map2_min_max_bounds:
  fixes xs ys :: "real list"
  assumes "length xs = length ys"
  shows "list_all2 (\<le>) (map2 min xs ys) xs" "list_all2 (\<le>) (map2 min xs ys) ys"
    "list_all2 (\<le>) xs (map2 max xs ys)" "list_all2 (\<le>) ys (map2 max xs ys)"
  using assms by (induction xs ys rule: list_induct2) simp_all

lemma union_box_contains:
  assumes "length (bmin a) = length (bmin b)" "length (bmax a) = length (bmax b)"
  shows "contains_box (union_box a b) a" "contains_box (union_box a b) b"
  using assms by (simp_all add: contains_box_def union_box_def map2_min_max_bounds)

lemma union_box_dims:
  "length (bmin a) = d \<Longrightarrow> length (bmin b) = d \<Longrightarrow> length (bmin (union_box a b)) = d"
  "length (bmax a) = d \<Longrightarrow> length (bmax b) = d \<Longrightarrow> length (bmax (union_box a b)) = d"
  by (simp_all add: union_box_def)

lemma uniform_dim_subset:
  "uniform_dim d S \<Longrightarrow> set T \<subseteq> set S \<Longrightarrow> uniform_dim d T"
  by (auto simp: uniform_dim_def list_all_iff)

lemma build_node_invariant:
  "uniform_dim d S \<Longrightarrow> S \<noteq> [] \<Longrightarrow>
   \<exists>n. build_node S = Some n \<and> node_inv n \<and> set (leaves n) = set S \<and>
       length (bmin (node_box n)) = d \<and> length (bmax (node_box n)) = d"
proof (induction "length S" arbitrary: S rule: less_induct)
  case less
  show ?case
  proof (cases S)
    case Nil
    with less.prems show ?thesis by simp
  next
    case (Cons x S1)
    show ?thesis
    proof (cases S1)
      case Nil
      with Cons less.prems show ?thesis
        by (simp add: build_node_single uniform_dim_def)
    next
      case (Cons y S2)
      define sorted where "sorted = median_order (split_axis S) S"
      define k where "k = (length S + 1) div 2"
      have S: "S = x # y # S2" using \<open>S = x # S1\<close> Cons by simp
      have split: "build_node S =
          (case (build_node (take k sorted), build_node (drop k sorted)) of
             (Some l, Some r) \<Rightarrow> Some (Internal (union_box (node_box l) (node_box r)) l r)
           | _ \<Rightarrow> None)"
        unfolding sorted_def k_def S by (simp only: build_node_split Let_def)
      have len: "length sorted = length S" and elems: "set sorted = set S"
        by (simp_all add: sorted_def median_order_def)
      have k: "0 < k" "k < length S" using S by (simp_all add: k_def)
      have sub: "set (take k sorted) \<subseteq> set S" "set (drop k sorted) \<subseteq> set S"
        using elems set_take_subset [of k sorted] set_drop_subset [of k sorted] by auto
      have "take k sorted \<noteq> []" "length (take k sorted) < length S"
        using k len by auto
      moreover have "uniform_dim d (take k sorted)"
        using less.prems(1) sub(1) by (rule uniform_dim_subset)
      ultimately obtain l where l: "build_node (take k sorted) = Some l" "node_inv l"
        "set (leaves l) = set (take k sorted)"
        "length (bmin (node_box l)) = d" "length (bmax (node_box l)) = d"
        using less.hyps by blast
      have "drop k sorted \<noteq> []" "length (drop k sorted) < length S"
        using k len by auto
      moreover have "uniform_dim d (drop k sorted)"
        using less.prems(1) sub(2) by (rule uniform_dim_subset)
      ultimately obtain r where r: "build_node (drop k sorted) = Some r" "node_inv r"
        "set (leaves r) = set (drop k sorted)"
        "length (bmin (node_box r)) = d" "length (bmax (node_box r)) = d"
        using less.hyps by blast
      let ?n = "Internal (union_box (node_box l) (node_box r)) l r"
      have built: "build_node S = Some ?n"
        using split l(1) r(1) by simp
      have "set (take k sorted) \<union> set (drop k sorted) = set sorted"
        by (metis append_take_drop_id set_append)
      with l(3) r(3) elems have lv: "set (leaves ?n) = set S" by simp
      have inv: "node_inv ?n"
        using l r by (simp add: union_box_contains)
      have dims: "length (bmin (node_box ?n)) = d" "length (bmax (node_box ?n)) = d"
        using l r by (simp_all add: union_box_dims)
      from built inv lv dims show ?thesis by blast
    qed
  qed
qed

lemma build_tree_inv: "uniform_dim d S \<Longrightarrow> tree_inv (build S)"
  using build_node_invariant [of d S]
  by (cases "S = []") (auto simp: tree_inv_def build_def build_node_empty)



lemmas build_eval = build_def build_node_split build_node_single build_node_empty median_order_def
  split_axis_def spread_def centroid_def coord_def union_box_def Let_def

lemma two_cells:
  "build [(0, \<lparr>bmin = [0], bmax = [1/2]\<rparr>), (1, \<lparr>bmin = [1/2], bmax = [1]\<rparr>)] =
     Some (Internal \<lparr>bmin = [0], bmax = [1]\<rparr>
            (Leaf 0 \<lparr>bmin = [0], bmax = [1/2]\<rparr>) (Leaf 1 \<lparr>bmin = [1/2], bmax = [1]\<rparr>))"
  by (simp add: build_eval)

lemma two_cells_shifted:
  "build [(0, \<lparr>bmin = [3/10], bmax = [4/5]\<rparr>), (1, \<lparr>bmin = [4/5], bmax = [13/10]\<rparr>)] =
     Some (Internal \<lparr>bmin = [3/10], bmax = [13/10]\<rparr>
            (Leaf 0 \<lparr>bmin = [3/10], bmax = [4/5]\<rparr>) (Leaf 1 \<lparr>bmin = [4/5], bmax = [13/10]\<rparr>))"
  by (simp add: build_eval)

subsection \<open>Point queries\<close>

lemma first_collision_node_member:
  "first_collision_node ord tol n p = Some e \<Longrightarrow> e \<in> set (collisions_node tol n p)"
  by (induction n) (auto split: if_splits option.splits)

lemma first_collision_node_none:
  "first_collision_node ord tol n p = None \<longleftrightarrow> collisions_node tol n p = []"
  by (induction n) (auto split: if_splits option.splits)

text \<open>
  C2. For every tree, tolerance, query point and order in which the first-collision
  query searches the children, the first-collision query either returns an entity that
  is in the result of the all-collisions query, or returns none, and it returns none
  exactly when the all-collisions result is empty; both queries reject the same points
  as invalid arguments.
\<close>

theorem first_collision_in_collisions:
  "(compute_first_collision ord tol t p = Inl err \<longleftrightarrow> compute_collisions tol t p = Inl err) \<and>
   (compute_first_collision ord tol t p = Inr (Some e) \<longrightarrow>
      (\<exists>es. compute_collisions tol t p = Inr es \<and> e \<in> set es)) \<and>
   (compute_first_collision ord tol t p = Inr None \<longleftrightarrow> compute_collisions tol t p = Inr [])"
  by (auto simp: compute_first_collision_def compute_collisions_def
      first_collision_node_member first_collision_node_none split: option.splits)

theorem first_collision_in_collisions_witness:
  "compute_first_collision (\<lambda>n. True) 0
     (build [(0, \<lparr>bmin = [0], bmax = [1/2]\<rparr>), (1, \<lparr>bmin = [1/2], bmax = [1]\<rparr>)]) [1/2]
     = Inr (Some 0) \<and>
   compute_first_collision (\<lambda>n. False) 0
     (build [(0, \<lparr>bmin = [0], bmax = [1/2]\<rparr>), (1, \<lparr>bmin = [1/2], bmax = [1]\<rparr>)]) [1/2]
     = Inr (Some 1) \<and>
   (\<exists>es. compute_collisions 0
     (build [(0, \<lparr>bmin = [0], bmax = [1/2]\<rparr>), (1, \<lparr>bmin = [1/2], bmax = [1]\<rparr>)]) [1/2]
     = Inr es \<and> 0 \<in> set es \<and> 1 \<in> set es) \<and>
   compute_first_collision (\<lambda>n. True) 0
     (build [(0, \<lparr>bmin = [0], bmax = [1/2]\<rparr>), (1, \<lparr>bmin = [1/2], bmax = [1]\<rparr>)]) [2]
     = Inr None \<and>
   compute_collisions 0
     (build [(0, \<lparr>bmin = [0], bmax = [1/2]\<rparr>), (1, \<lparr>bmin = [1/2], bmax = [1]\<rparr>)]) [2]
     = Inr [] \<and>
   compute_first_collision (\<lambda>n. True) 0
     (build [(0, \<lparr>bmin = [0], bmax = [1/2]\<rparr>), (1, \<lparr>bmin = [1/2], bmax = [1]\<rparr>)]) [0, 0]
     = Inl InvalidArgument \<and>
   compute_collisions 0
     (build [(0, \<lparr>bmin = [0], bmax = [1/2]\<rparr>), (1, \<lparr>bmin = [1/2], bmax = [1]\<rparr>)]) [0, 0]
     = Inl InvalidArgument"
proof -
  let ?T = "build [(0, \<lparr>bmin = [0], bmax = [1/2]\<rparr>), (1, \<lparr>bmin = [1/2], bmax = [1]\<rparr>)]"
  have hit: "compute_first_collision (\<lambda>n. True) 0 ?T [1/2] = Inr (Some 0)"
    unfolding two_cells
    by (simp add: compute_first_collision_def ambient_dim_def contains_point_def)
  have hit': "compute_first_collision (\<lambda>n. False) 0 ?T [1/2] = Inr (Some 1)"
    unfolding two_cells
    by (simp add: compute_first_collision_def ambient_dim_def contains_point_def)
  have miss: "compute_first_collision (\<lambda>n. True) 0 ?T [2] = Inr None"
    unfolding two_cells
    by (simp add: compute_first_collision_def ambient_dim_def contains_point_def)
  have bad: "compute_first_collision (\<lambda>n. True) 0 ?T [0, 0] = Inl InvalidArgument"
    unfolding two_cells
    by (simp add: compute_first_collision_def ambient_dim_def)
  from hit first_collision_in_collisions [of "\<lambda>n. True" 0 ?T "[1/2]" _ 0]
  obtain es where es: "compute_collisions 0 ?T [1/2] = Inr es" "0 \<in> set es"
    by blast
  from hit' first_collision_in_collisions [of "\<lambda>n. False" 0 ?T "[1/2]" _ 1] es(1)
  have "1 \<in> set es"
    by auto
  with es have 1: "\<exists>es. compute_collisions 0 ?T [1/2] = Inr es \<and> 0 \<in> set es \<and> 1 \<in> set es"
    by blast
  from miss first_collision_in_collisions [of "\<lambda>n. True" 0 ?T "[2]"]
  have 2: "compute_collisions 0 ?T [2] = Inr []"
    by blast
  from bad first_collision_in_collisions [of "\<lambda>n. True" 0 ?T "[0, 0]" InvalidArgument]
  have 3: "compute_collisions 0 ?T [0, 0] = Inl InvalidArgument"
    by blast
  from hit hit' 1 miss 2 bad 3 show ?thesis
    by blast
qed

subsection \<open>Tree-to-tree queries\<close>

lemma overlaps_sym: "overlaps a b = overlaps b a"
  by (auto simp: overlaps_def)

lemma contains_box_refl: "contains_box b b"
  by (simp add: contains_box_def list_all2_refl)

lemma list_all2_le_trans:
  fixes xs ys zs :: "real list"
  shows "list_all2 (\<le>) xs ys \<Longrightarrow> list_all2 (\<le>) ys zs \<Longrightarrow> list_all2 (\<le>) xs zs"
  using list_all2_trans [of "(\<le>)" "(\<le>)" "(\<le>)" xs ys zs] by auto

lemma contains_box_trans:
  "contains_box a b \<Longrightarrow> contains_box b c \<Longrightarrow> contains_box a c"
  unfolding contains_box_def
  by (blast intro: list_all2_le_trans)

lemma overlaps_mono_left:
  "contains_box n c \<Longrightarrow> overlaps c x \<Longrightarrow> overlaps n x"
  unfolding contains_box_def overlaps_def
  by (blast intro: list_all2_le_trans)

lemma overlaps_mono_right:
  "contains_box n c \<Longrightarrow> overlaps x c \<Longrightarrow> overlaps x n"
  using overlaps_mono_left overlaps_sym by blast

lemma leaf_box_contained:
  "node_inv n \<Longrightarrow> (e, b) \<in> set (leaves n) \<Longrightarrow> contains_box (node_box n) b"
proof (induction n)
  case (Leaf e' b')
  then show ?case by (simp add: contains_box_refl)
next
  case (Internal bx l r)
  then show ?case
    by (auto intro: contains_box_trans)
qed

lemma overlapping_pairs_pruned:
  assumes "node_inv a" "node_inv b" "\<not> overlaps (node_box a) (node_box b)"
  shows "overlapping_pairs a b = {}"
proof -
  have False if "(ea, ba) \<in> set (leaves a)" "(eb, bb) \<in> set (leaves b)" "overlaps ba bb"
    for ea ba eb bb
  proof -
    from assms(1) that(1) have "contains_box (node_box a) ba" by (rule leaf_box_contained)
    then have "overlaps (node_box a) bb" using that(3) by (rule overlaps_mono_left)
    moreover from assms(2) that(2) have "contains_box (node_box b) bb" by (rule leaf_box_contained)
    ultimately have "overlaps (node_box a) (node_box b)" by (rule overlaps_mono_right [rotated])
    with assms(3) show False by simp
  qed
  then show ?thesis by (auto simp: overlapping_pairs_def)
qed

lemma overlapping_pairs_split_left:
  "overlapping_pairs (Internal bx l r) b = overlapping_pairs l b \<union> overlapping_pairs r b"
  by (auto simp: overlapping_pairs_def)

lemma overlapping_pairs_split_right:
  "overlapping_pairs a (Internal bx l r) = overlapping_pairs a l \<union> overlapping_pairs a r"
  by (auto simp: overlapping_pairs_def)

lemma overlapping_pairs_leaves:
  "overlapping_pairs (Leaf ea ba) (Leaf eb bb) = (if overlaps ba bb then {(ea, eb)} else {})"
  by (auto simp: overlapping_pairs_def)

lemma collide_complete:
  "node_inv a \<Longrightarrow> node_inv b \<Longrightarrow> set (collide a b) = overlapping_pairs a b"
proof (induction a b rule: collide.induct)
  case (1 ea ba eb bb)
  then show ?case by (simp add: overlapping_pairs_leaves)
next
  case (2 ea ba bb l r)
  show ?case
  proof (cases "overlaps ba bb")
    case True
    with 2 show ?thesis by (simp add: overlapping_pairs_split_right)
  next
    case False
    with overlapping_pairs_pruned [OF "2.prems"] show ?thesis by simp
  qed
next
  case (3 ba l r eb bb)
  show ?case
  proof (cases "overlaps ba bb")
    case True
    with 3 show ?thesis by (simp add: overlapping_pairs_split_left)
  next
    case False
    with overlapping_pairs_pruned [OF "3.prems"] show ?thesis by simp
  qed
next
  case (4 ba la ra bb lb rb)
  show ?case
  proof (cases "overlaps ba bb")
    case False
    with overlapping_pairs_pruned [OF "4.prems"] show ?thesis by simp
  next
    case True
    show ?thesis
    proof (cases "volume bb \<le> volume ba")
      case True
      with \<open>overlaps ba bb\<close> 4 show ?thesis by (simp add: overlapping_pairs_split_left)
    next
      case False
      with \<open>overlaps ba bb\<close> 4 show ?thesis by (simp add: overlapping_pairs_split_right)
    qed
  qed
qed

lemma overlapping_pairs_swap:
  "(ea, eb) \<in> overlapping_pairs a b \<longleftrightarrow> (eb, ea) \<in> overlapping_pairs b a"
  unfolding overlapping_pairs_def using overlaps_sym by blast

text \<open>
  C4. For every pair of trees of the data model (every internal box contains the boxes
  of its children, which is what the builder produces), the tree-to-tree query is
  symmetric: the query of \<open>B\<close> against \<open>A\<close> fails exactly when the query of \<open>A\<close> against
  \<open>B\<close> does, and otherwise a pair \<open>(ea, eb)\<close> is in the collisions of \<open>A\<close> with \<open>B\<close>
  exactly when \<open>(eb, ea)\<close> is in the collisions of \<open>B\<close> with \<open>A\<close>. Both queries compute
  the set of all pairs of leaves with overlapping boxes.
\<close>

theorem tree_collisions_symmetric:
  "tree_inv A \<Longrightarrow> tree_inv B \<Longrightarrow>
   (case compute_collisions_bb A B of
      Inl err \<Rightarrow> compute_collisions_bb B A = Inl err
    | Inr ps \<Rightarrow>
        (\<exists>qs. compute_collisions_bb B A = Inr qs \<and>
              (\<forall>ea eb. (ea, eb) \<in> set ps \<longleftrightarrow> (eb, ea) \<in> set qs)))"
  by (auto simp: compute_collisions_bb_def tree_inv_def collide_complete overlapping_pairs_swap
      split: option.splits)


theorem tree_collisions_symmetric_witness:
  "tree_inv (build [(0, \<lparr>bmin = [0], bmax = [1/2]\<rparr>), (1, \<lparr>bmin = [1/2], bmax = [1]\<rparr>)]) \<and>
   tree_inv (build [(0, \<lparr>bmin = [3/10], bmax = [4/5]\<rparr>), (1, \<lparr>bmin = [4/5], bmax = [13/10]\<rparr>)]) \<and>
   compute_collisions_bb
     (build [(0, \<lparr>bmin = [0], bmax = [1/2]\<rparr>), (1, \<lparr>bmin = [1/2], bmax = [1]\<rparr>)])
     (build [(0, \<lparr>bmin = [3/10], bmax = [4/5]\<rparr>), (1, \<lparr>bmin = [4/5], bmax = [13/10]\<rparr>)])
     = Inr [(0, 0), (1, 0), (1, 1)] \<and>
   (\<exists>qs. compute_collisions_bb
     (build [(0, \<lparr>bmin = [3/10], bmax = [4/5]\<rparr>), (1, \<lparr>bmin = [4/5], bmax = [13/10]\<rparr>)])
     (build [(0, \<lparr>bmin = [0], bmax = [1/2]\<rparr>), (1, \<lparr>bmin = [1/2], bmax = [1]\<rparr>)])
     = Inr qs \<and> set qs = {(0, 0), (0, 1), (1, 1)})"
proof -
  let ?A = "build [(0, \<lparr>bmin = [0], bmax = [1/2]\<rparr>), (1, \<lparr>bmin = [1/2], bmax = [1]\<rparr>)]"
  let ?B = "build [(0, \<lparr>bmin = [3/10], bmax = [4/5]\<rparr>), (1, \<lparr>bmin = [4/5], bmax = [13/10]\<rparr>)]"
  have A: "tree_inv ?A"
    by (rule build_tree_inv [of 1]) (simp add: uniform_dim_def)
  have B: "tree_inv ?B"
    by (rule build_tree_inv [of 1]) (simp add: uniform_dim_def)
  have AB: "compute_collisions_bb ?A ?B = Inr [(0, 0), (1, 0), (1, 1)]"
    unfolding two_cells two_cells_shifted
    by (simp add: compute_collisions_bb_def ambient_dim_def overlaps_def volume_def)
  from tree_collisions_symmetric [OF A B] AB
  obtain qs where qs: "compute_collisions_bb ?B ?A = Inr qs"
    and sw: "\<forall>ea eb. (ea, eb) \<in> set [(0, 0), (1, 0), (1, 1 :: nat)] \<longleftrightarrow> (eb, ea) \<in> set qs"
    by auto
  have "set qs = {(0, 0), (0, 1), (1, 1)}"
  proof (rule set_eqI)
    fix q :: "nat \<times> nat"
    obtain eb ea where q: "q = (eb, ea)" by (cases q)
    from sw have "(eb, ea) \<in> set qs \<longleftrightarrow> (ea, eb) \<in> set [(0, 0), (1, 0), (1, 1 :: nat)]"
      by blast
    then show "q \<in> set qs \<longleftrightarrow> q \<in> {(0, 0), (0, 1), (1, 1)}"
      unfolding q by auto
  qed
  with A B AB qs show ?thesis
    by blast
qed


end
